theory Spec2Isabelle
  imports Complex_Main "HOL-Library.Word" "HOL-Library.Multiset" "HOL-Library.Log_Nat"
begin

section \<open>Go numbers\<close>

text \<open>
  \<^verbatim>\<open>time.Duration\<close> is an \<^verbatim>\<open>int64\<close> count of nanoseconds: a 64-bit word, read as a
  signed number with \<open>sint\<close>; its \<open>+\<close> wraps around as Go's does. \<^verbatim>\<open>uint32\<close> is a 32-bit
  word read with \<open>uint\<close>. Go's \<^verbatim>\<open>int\<close> is taken at its mathematical value; the only
  operation on it here is the division by a positive length, which cannot overflow.
\<close>

type_synonym time_Duration = "64 word"

definition go_quot :: "int \<Rightarrow> int \<Rightarrow> int" where
  \<comment> \<open>Go's integer \<^verbatim>\<open>/\<close>: the quotient truncated towards zero.\<close>
  "go_quot a b = sgn a * sgn b * (\<bar>a\<bar> div \<bar>b\<bar>)"

definition Milliseconds :: "time_Duration \<Rightarrow> int" where
  "Milliseconds d = go_quot (sint d) 1000000"

text \<open>
  A \<^verbatim>\<open>float64\<close> is a real number that fits the IEEE 754 binary64 format, an infinity or
  a NaN. The sign of a zero is not represented: the only zero divisors of this program
  are \<^verbatim>\<open>float64(0)\<close> and \<^verbatim>\<open>float64(0) / 1e9\<close>, both \<open>+0\<close>. \<open>round64\<close> rounds a real
  number to the nearest \<^verbatim>\<open>float64\<close>, ties to the even significand: 53 significant
  bits, the quantum \<open>2 powi (e - 52)\<close> for a magnitude in \<open>[2 powi e, 2 powi (e + 1))\<close>,
  subnormal below \<open>2 powi (- 1022)\<close>, and an infinity from \<open>2 ^ 1024\<close> on.
\<close>

datatype f64 = Finite real | PosInf | NegInf | NaN

definition round_half_even :: "real \<Rightarrow> int" where
  "round_half_even x =
     (let f = \<lfloor>x\<rfloor>; d = x - of_int f
      in if d < 1 / 2 then f else if 1 / 2 < d then f + 1 else if even f then f else f + 1)"

definition exponent :: "real \<Rightarrow> int" where
  \<comment> \<open>For \<open>0 < x\<close>, the \<open>e\<close> with \<open>2 powi e \<le> x < 2 powi (e + 1)\<close>.\<close>
  "exponent x = (if 1 \<le> x then bitlen \<lfloor>x\<rfloor> - 1 else - bitlen (\<lceil>1 / x\<rceil> - 1))"

definition round64 :: "real \<Rightarrow> f64" where
  "round64 x =
     (if x = 0 then Finite 0
      else let e = max (exponent \<bar>x\<bar>) (- 1022);
               u = 2 powi (e - 52);
               m = of_int (round_half_even (\<bar>x\<bar> / u)) * u
           in if 2 ^ 1024 \<le> m then (if 0 < x then PosInf else NegInf)
              else Finite (sgn x * m))"

definition float64 :: "int \<Rightarrow> f64" where
  \<comment> \<open>The conversion \<^verbatim>\<open>float64(i)\<close> of an integer.\<close>
  "float64 i = round64 (of_int i)"

fun fdiv :: "f64 \<Rightarrow> f64 \<Rightarrow> f64" where
  "fdiv NaN _ = NaN"
| "fdiv _ NaN = NaN"
| "fdiv (Finite a) (Finite b) =
     (if b = 0 then (if a = 0 then NaN else if 0 < a then PosInf else NegInf)
      else round64 (a / b))"
| "fdiv (Finite a) _ = Finite 0"
| "fdiv PosInf (Finite b) = (if b < 0 then NegInf else PosInf)"
| "fdiv NegInf (Finite b) = (if b < 0 then PosInf else NegInf)"
| "fdiv _ _ = NaN"

fun math_Max :: "f64 \<Rightarrow> f64 \<Rightarrow> f64" where
  "math_Max PosInf _ = PosInf"
| "math_Max _ PosInf = PosInf"
| "math_Max NaN _ = NaN"
| "math_Max _ NaN = NaN"
| "math_Max NegInf y = y"
| "math_Max x NegInf = x"
| "math_Max (Finite a) (Finite b) = Finite (max a b)"

text \<open>
  The conversion \<^verbatim>\<open>time.Duration(f)\<close> of a \<^verbatim>\<open>float64\<close> drops the fraction. When the
  result does not fit \<^verbatim>\<open>int64\<close>, Go leaves the value to the implementation; \<open>oor\<close> is
  that choice (on amd64 it is the least \<^verbatim>\<open>int64\<close>, whatever the operand).
\<close>

definition Duration_of :: "(f64 \<Rightarrow> time_Duration) \<Rightarrow> f64 \<Rightarrow> time_Duration" where
  "Duration_of oor f =
     (case f of
        Finite x \<Rightarrow>
          (let t = (if 0 \<le> x then \<lfloor>x\<rfloor> else \<lceil>x\<rceil>)
           in if - (2 ^ 63) \<le> t \<and> t < 2 ^ 63 then word_of_int t else oor f)
      | _ \<Rightarrow> oor f)"

section \<open>pkg/benchmark: requests, responses and their aggregation\<close>

datatype error = Failure string | LatencyExceeded int time_Duration

record Config =
  ID :: string
  Suite :: string
  Benchmark :: string
  Workers :: int
  Parallelism :: int
  Iterations :: int
  cfg_Duration :: "time_Duration option"
  MaxLatency :: "time_Duration option"
  Args :: "(string \<times> string) list"

record RunRequest =
  rq_Suite :: string
  rq_Benchmark :: string
  rq_Requests :: "32 word"
  rq_Duration :: "time_Duration option"
  rq_MaxLatency :: "time_Duration option"
  rq_Parallelism :: "32 word"
  rq_Args :: "(string \<times> string) list"

record RunResponse =
  Requests :: "32 word"
  Duration :: time_Duration
  Latency :: time_Duration
  Latency50 :: time_Duration
  Latency75 :: time_Duration
  Latency95 :: time_Duration
  Latency99 :: time_Duration

record result =
  benchmark :: string
  requests :: int
  duration :: time_Duration
  throughput :: f64
  meanLatency :: time_Duration
  latencyPercentiles :: "real \<rightharpoonup> time_Duration"

text \<open>
  The request that \<^verbatim>\<open>runBenchmark\<close> hands to each of the \<open>n\<close> worker goroutines:
  \<^verbatim>\<open>t.config.Iterations/len(workers)\<close> converted to \<^verbatim>\<open>uint32\<close>.
\<close>

definition runRequest :: "Config \<Rightarrow> string \<Rightarrow> nat \<Rightarrow> RunRequest" where
  "runRequest cfg b n =
     \<lparr>rq_Suite = Suite cfg, rq_Benchmark = b,
      rq_Requests = word_of_int (go_quot (Iterations cfg) (int n)),
      rq_Duration = cfg_Duration cfg, rq_MaxLatency = MaxLatency cfg,
      rq_Parallelism = word_of_int (Parallelism cfg), rq_Args = Args cfg\<rparr>"

text \<open>
  The second half of \<^verbatim>\<open>runBenchmark\<close>: the loop over the result channel and the
  arithmetic after it. \<open>totals\<close> holds the loop's variables.
\<close>

record totals =
  sum_duration :: time_Duration
  sum_requests :: "32 word"
  latencySum :: time_Duration
  latency50Sum :: time_Duration
  latency75Sum :: time_Duration
  latency95Sum :: time_Duration
  latency99Sum :: time_Duration

definition totals_zero :: totals where
  "totals_zero = \<lparr>sum_duration = 0, sum_requests = 0, latencySum = 0, latency50Sum = 0,
     latency75Sum = 0, latency95Sum = 0, latency99Sum = 0\<rparr>"

definition totals_step :: "(f64 \<Rightarrow> time_Duration) \<Rightarrow> RunResponse \<Rightarrow> totals \<Rightarrow> totals" where
  "totals_step oor r a =
     \<lparr>sum_duration =
        Duration_of oor (math_Max (float64 (sint (sum_duration a))) (float64 (sint (Duration r)))),
      sum_requests = sum_requests a + Requests r,
      latencySum = latencySum a + Latency r,
      latency50Sum = latency50Sum a + Latency50 r,
      latency75Sum = latency75Sum a + Latency75 r,
      latency95Sum = latency95Sum a + Latency95 r,
      latency99Sum = latency99Sum a + Latency99 r\<rparr>"

definition mean_of :: "(f64 \<Rightarrow> time_Duration) \<Rightarrow> time_Duration \<Rightarrow> nat \<Rightarrow> time_Duration" where
  \<comment> \<open>\<^verbatim>\<open>time.Duration(float64(sum) / float64(len(workers)))\<close>\<close>
  "mean_of oor s n = Duration_of oor (fdiv (float64 (sint s)) (float64 (int n)))"

definition aggregate :: "(f64 \<Rightarrow> time_Duration) \<Rightarrow> string \<Rightarrow> nat \<Rightarrow> RunResponse list \<Rightarrow> result" where
  "aggregate oor b n rs =
     (let a = fold (totals_step oor) rs totals_zero
      in \<lparr>benchmark = b,
          requests = uint (sum_requests a),
          duration = sum_duration a,
          throughput =
            fdiv (float64 (uint (sum_requests a)))
              (fdiv (float64 (sint (sum_duration a))) (float64 1000000000)),
          meanLatency = mean_of oor (latencySum a) n,
          latencyPercentiles =
            [1 / 2 \<mapsto> mean_of oor (latency50Sum a) n,
             3 / 4 \<mapsto> mean_of oor (latency75Sum a) n,
             95 / 100 \<mapsto> mean_of oor (latency95Sum a) n,
             99 / 100 \<mapsto> mean_of oor (latency99Sum a) n]\<rparr>)"

text \<open>The last loop of \<^verbatim>\<open>runBenchmarks\<close>: the first result at or over the maximum fails.\<close>

fun checkMaxLatency :: "time_Duration option \<Rightarrow> result list \<Rightarrow> error option" where
  "checkMaxLatency m [] = None"
| "checkMaxLatency m (r # rs) =
     (case m of
        None \<Rightarrow> checkMaxLatency m rs
      | Some l \<Rightarrow>
          if sint l \<le> sint (meanLatency r) then Some (LatencyExceeded (Milliseconds (meanLatency r)) l)
          else checkMaxLatency m rs)"

section \<open>Go channels\<close>

text \<open>
  A Go channel is a queue with a capacity and a closed flag. An operation on a channel
  either proceeds, blocks the calling goroutine, or panics. \<open>send\<close> is the buffered
  part of \<^verbatim>\<open>ch <- v\<close>: with no free slot the sender blocks until a receiver takes
  the value; the state machines below say when a receiver is there. \<open>recv\<close> is
  \<^verbatim>\<open>v, ok := <-ch\<close>: a buffered value first, the zero value (here \<open>None\<close>) once the
  channel is closed and drained, and blocking otherwise.
\<close>

record 'a chan =
  buf :: "'a list"
  cap :: nat
  is_closed :: bool

datatype 'a attempt = Blocks | Panics | Proceeds 'a

definition make_chan :: "nat \<Rightarrow> 'a chan" where
  "make_chan n = \<lparr>buf = [], cap = n, is_closed = False\<rparr>"

definition send :: "'a \<Rightarrow> 'a chan \<Rightarrow> 'a chan attempt" where
  "send v c =
     (if is_closed c then Panics
      else if length (buf c) < cap c then Proceeds (c\<lparr>buf := buf c @ [v]\<rparr>)
      else Blocks)"

definition recv :: "'a chan \<Rightarrow> ('a option \<times> 'a chan) attempt" where
  "recv c =
     (case buf c of
        v # vs \<Rightarrow> Proceeds (Some v, c\<lparr>buf := vs\<rparr>)
      | [] \<Rightarrow> if is_closed c then Proceeds (None, c) else Blocks)"

definition close_chan :: "'a chan \<Rightarrow> 'a chan attempt" where
  "close_chan c = (if is_closed c then Panics else Proceeds (c\<lparr>is_closed := True\<rparr>))"

section \<open>internal/console: Fork, Run, Join and Wait\<close>

text \<open>
  \<^verbatim>\<open>Context.Fork\<close> and \<^verbatim>\<open>Context.Run\<close> both make a channel of capacity 1 and start a
  goroutine that runs the given function, sends its error when it is not nil, and
  closes the channel on the way out (\<^verbatim>\<open>defer close(ch)\<close>). The function's result is
  \<open>None\<close> for nil and \<open>Some e\<close> for the error \<open>e\<close>. \<open>Fork_goroutine r c\<close> is the whole
  body of that goroutine on the channel \<open>c\<close>, for a function that returns \<open>r\<close>.
\<close>

definition Fork_goroutine :: "'e option \<Rightarrow> 'e chan \<Rightarrow> 'e chan attempt" where
  "Fork_goroutine r c =
     (case (case r of Some e \<Rightarrow> send e c | None \<Rightarrow> Proceeds c) of
        Proceeds c' \<Rightarrow> close_chan c'
      | Blocks \<Rightarrow> Blocks
      | Panics \<Rightarrow> Panics)"

text \<open>
  Joiners and waiters hold a reference to their channel; two of them may hold the same
  one. The store maps an address (an index) to the channel's current state, and every
  receive returns the updated store.
\<close>

type_synonym 'e store = "'e chan list"

definition channelJoiner_Join :: "nat \<Rightarrow> 'e store \<Rightarrow> ('e option \<times> 'e store) attempt" where
  "channelJoiner_Join w s =
     (case recv (s ! w) of
        Proceeds (e, c) \<Rightarrow> Proceeds (e, s[w := c])
      | Blocks \<Rightarrow> Blocks
      | Panics \<Rightarrow> Panics)"

definition channelWaiter_Wait :: "nat \<Rightarrow> 'e store \<Rightarrow> ('e option \<times> 'e store) attempt" where
  "channelWaiter_Wait w s =
     (case recv (s ! w) of
        Proceeds (e, c) \<Rightarrow> Proceeds (e, s[w := c])
      | Blocks \<Rightarrow> Blocks
      | Panics \<Rightarrow> Panics)"





text \<open>
  The state of the channel of a launched task: still as \<^verbatim>\<open>make(chan error, 1)\<close> left it
  while the task runs (\<open>None\<close>), and what the goroutine leaves behind once the task has
  returned \<open>r\<close> (\<open>Some r\<close>).
\<close>

definition launched :: "'e option option \<Rightarrow> 'e chan \<Rightarrow> bool" where
  "launched t c =
     (case t of
        None \<Rightarrow> c = make_chan 1
      | Some r \<Rightarrow> Fork_goroutine r (make_chan 1) = Proceeds c)"



section \<open>pkg/benchmark: the worker task\<close>

text \<open>
  Everything outside of the source is an input of the model: what the job runner, the
  dialer and the workers' RPCs return (\<open>None\<close> is a nil error), the benchmarks that the
  registry lists for the suite, how the scheduler interleaves the goroutines of each
  fan-out, and the platform's conversion of a \<^verbatim>\<open>float64\<close> that does not fit \<^verbatim>\<open>int64\<close>.
  \<^verbatim>\<open>async.IterAsync\<close> is not part of the source at hand, so the result of
  \<^verbatim>\<open>createWorkers\<close> is an input as well.
\<close>

datatype site = AtSetupWorkers | AtSetupBenchmark string | AtRunBenchmark string

record env =
  CreateNamespace :: "error option"
  IterAsync_createWorker :: "error option"
  DeleteNamespace :: "error option"
  Dial :: "nat \<Rightarrow> error option"
  SetupSuite :: "nat \<Rightarrow> error option"
  SetupWorker :: "nat \<Rightarrow> error option"
  SetupBenchmark :: "string \<Rightarrow> nat \<Rightarrow> error option"
  RunBenchmark :: "nat \<Rightarrow> RunRequest \<Rightarrow> error + RunResponse"
  getBenchmarks :: "string list"
  schedule :: "site \<Rightarrow> nat list"
  out_of_range :: "f64 \<Rightarrow> time_Duration"

definition andthen :: "'a attempt \<Rightarrow> ('a \<Rightarrow> 'b attempt) \<Rightarrow> 'b attempt" where
  "andthen a f = (case a of Proceeds x \<Rightarrow> f x | Blocks \<Rightarrow> Blocks | Panics \<Rightarrow> Panics)"

text \<open>
  \<^verbatim>\<open>getWorkers\<close> dials the workers \<open>0, \<dots>, Workers - 1\<close> in turn and stops at the first
  error; a client is identified with its ordinal. \<^verbatim>\<open>make\<close> panics on a negative
  length. The cache \<^verbatim>\<open>t.workers\<close> only saves dialling again: the dial results are fixed
  by the environment, so resolving again gives the same list.
\<close>

fun dial_loop :: "(nat \<Rightarrow> error option) \<Rightarrow> nat list \<Rightarrow> error + nat list" where
  "dial_loop d [] = Inr []"
| "dial_loop d (i # is) =
     (case d i of
        Some e \<Rightarrow> Inl e
      | None \<Rightarrow> (case dial_loop d is of Inl e \<Rightarrow> Inl e | Inr ws \<Rightarrow> Inr (i # ws)))"

definition getWorkers :: "env \<Rightarrow> Config \<Rightarrow> (error + nat list) attempt" where
  "getWorkers E cfg =
     (if Workers cfg < 0 then Panics
      else Proceeds (dial_loop (Dial E) [0 ..< nat (Workers cfg)]))"

definition setupSuite :: "env \<Rightarrow> Config \<Rightarrow> error option attempt" where
  "setupSuite E cfg =
     andthen (getWorkers E cfg) (\<lambda>r.
       case r of
         Inl e \<Rightarrow> Proceeds (Some e)
       | Inr [] \<Rightarrow> Panics
       | Inr (w # ws) \<Rightarrow> Proceeds (SetupSuite E w))"

subsection \<open>The fan-out of setupWorkers and setupBenchmark\<close>

text \<open>
  Both functions have the same body. Each goroutine assigns the call's error to the
  variable \<^verbatim>\<open>err\<close> of the enclosing function (\<^verbatim>\<open>_, err = ...\<close>, one variable shared by
  all of them), tests it, sends it on \<^verbatim>\<open>errCh\<close> when it is not nil, and calls
  \<^verbatim>\<open>wg.Done()\<close>. The main goroutine waits for the group, closes the channel and
  ranges over it. \<^verbatim>\<open>errCh\<close> is made without a capacity. A goroutine's step is one of
  these statements; a step of a blocked goroutine leaves the state as it is. The state
  starts after the loop that launches the goroutines, which none of them can observe.
\<close>

datatype gpc = GCall | GTest | GSend | GDone | GExit

datatype 'r mpc = MWait | MClose | MRange | MReturned 'r

record setup_state =
  st_err :: "error option"
  st_errCh :: "error option chan"
  st_wg :: nat
  st_pcs :: "gpc list"
  st_main :: "error option mpc"
  st_panic :: bool

definition setup_init :: "nat \<Rightarrow> setup_state" where
  "setup_init n =
     \<lparr>st_err = None, st_errCh = make_chan 0, st_wg = n, st_pcs = replicate n GCall,
      st_main = MWait, st_panic = False\<rparr>"

definition setup_goroutine :: "(nat \<Rightarrow> error option) \<Rightarrow> nat \<Rightarrow> setup_state \<Rightarrow> setup_state" where
  "setup_goroutine rpc i s =
     (case st_pcs s ! i of
        GCall \<Rightarrow> s\<lparr>st_err := rpc i, st_pcs := (st_pcs s)[i := GTest]\<rparr>
      | GTest \<Rightarrow> s\<lparr>st_pcs := (st_pcs s)[i := (if st_err s \<noteq> None then GSend else GDone)]\<rparr>
      | GSend \<Rightarrow>
          (case send (st_err s) (st_errCh s) of
             Panics \<Rightarrow> s\<lparr>st_panic := True\<rparr>
           | Proceeds c \<Rightarrow> s\<lparr>st_errCh := c, st_pcs := (st_pcs s)[i := GDone]\<rparr>
           | Blocks \<Rightarrow>
               if st_main s = MRange
               then s\<lparr>st_main := MReturned (st_err s), st_pcs := (st_pcs s)[i := GDone]\<rparr>
               else s)
      | GDone \<Rightarrow> s\<lparr>st_wg := st_wg s - 1, st_pcs := (st_pcs s)[i := GExit]\<rparr>
      | GExit \<Rightarrow> s)"

definition setup_main :: "setup_state \<Rightarrow> setup_state" where
  "setup_main s =
     (case st_main s of
        MWait \<Rightarrow> if st_wg s = 0 then s\<lparr>st_main := MClose\<rparr> else s
      | MClose \<Rightarrow>
          (case close_chan (st_errCh s) of
             Proceeds c \<Rightarrow> s\<lparr>st_errCh := c, st_main := MRange\<rparr>
           | _ \<Rightarrow> s\<lparr>st_panic := True\<rparr>)
      | MRange \<Rightarrow>
          (case recv (st_errCh s) of
             Proceeds (Some e, c) \<Rightarrow> s\<lparr>st_errCh := c, st_main := MReturned e\<rparr>
           | Proceeds (None, c) \<Rightarrow> s\<lparr>st_main := MReturned None\<rparr>
           | _ \<Rightarrow> s)
      | MReturned r \<Rightarrow> s)"

definition setup_step :: "(nat \<Rightarrow> error option) \<Rightarrow> setup_state \<Rightarrow> nat \<Rightarrow> setup_state" where
  \<comment> \<open>The thread \<open>i\<close> takes a step: a goroutine for \<open>i\<close> below their number, else the main one.\<close>
  "setup_step rpc s i =
     (if st_panic s then s
      else if i < length (st_pcs s) then setup_goroutine rpc i s
      else setup_main s)"

definition setup_fanout :: "(nat \<Rightarrow> error option) \<Rightarrow> nat \<Rightarrow> nat list \<Rightarrow> error option attempt" where
  "setup_fanout rpc n sched =
     (let s = foldl (setup_step rpc) (setup_init n) sched
      in if st_panic s then Panics
         else case st_main s of MReturned r \<Rightarrow> Proceeds r | _ \<Rightarrow> Blocks)"

definition setupWorkers :: "env \<Rightarrow> Config \<Rightarrow> error option attempt" where
  "setupWorkers E cfg =
     andthen (getWorkers E cfg) (\<lambda>r.
       case r of
         Inl e \<Rightarrow> Proceeds (Some e)
       | Inr ws \<Rightarrow>
           setup_fanout (\<lambda>i. SetupWorker E (ws ! i)) (length ws) (schedule E AtSetupWorkers))"

definition setupBenchmark :: "env \<Rightarrow> Config \<Rightarrow> string \<Rightarrow> error option attempt" where
  "setupBenchmark E cfg b =
     andthen (getWorkers E cfg) (\<lambda>r.
       case r of
         Inl e \<Rightarrow> Proceeds (Some e)
       | Inr ws \<Rightarrow>
           setup_fanout (\<lambda>i. SetupBenchmark E b (ws ! i)) (length ws)
             (schedule E (AtSetupBenchmark b)))"

subsection \<open>The fan-out of runBenchmark\<close>

text \<open>
  Here the call's results are local to the goroutine (\<^verbatim>\<open>result, err := ...\<close>) and both
  channels have the capacity \<^verbatim>\<open>len(workers)\<close>. After \<^verbatim>\<open>wg.Wait()\<close> every goroutine has
  left, so the two loops of the main goroutine over the closed channels read what is
  buffered, in the order of the sends.
\<close>

datatype rpc = RCall | RSend "error + RunResponse" | RDone | RExit

record run_state =
  rs_pcs :: "rpc list"
  rs_resultCh :: "RunResponse chan"
  rs_errCh :: "error chan"
  rs_wg :: nat
  rs_main :: "(error + result) mpc"
  rs_panic :: bool

definition run_init :: "nat \<Rightarrow> run_state" where
  "run_init n =
     \<lparr>rs_pcs = replicate n RCall, rs_resultCh = make_chan n, rs_errCh = make_chan n,
      rs_wg = n, rs_main = MWait, rs_panic = False\<rparr>"

definition run_goroutine :: "(nat \<Rightarrow> error + RunResponse) \<Rightarrow> nat \<Rightarrow> run_state \<Rightarrow> run_state" where
  "run_goroutine call i s =
     (case rs_pcs s ! i of
        RCall \<Rightarrow> s\<lparr>rs_pcs := (rs_pcs s)[i := RSend (call i)]\<rparr>
      | RSend (Inl e) \<Rightarrow>
          (case send e (rs_errCh s) of
             Panics \<Rightarrow> s\<lparr>rs_panic := True\<rparr>
           | Proceeds c \<Rightarrow> s\<lparr>rs_errCh := c, rs_pcs := (rs_pcs s)[i := RDone]\<rparr>
           | Blocks \<Rightarrow> s)
      | RSend (Inr r) \<Rightarrow>
          (case send r (rs_resultCh s) of
             Panics \<Rightarrow> s\<lparr>rs_panic := True\<rparr>
           | Proceeds c \<Rightarrow> s\<lparr>rs_resultCh := c, rs_pcs := (rs_pcs s)[i := RDone]\<rparr>
           | Blocks \<Rightarrow> s)
      | RDone \<Rightarrow> s\<lparr>rs_wg := rs_wg s - 1, rs_pcs := (rs_pcs s)[i := RExit]\<rparr>
      | RExit \<Rightarrow> s)"

definition run_main :: "(f64 \<Rightarrow> time_Duration) \<Rightarrow> string \<Rightarrow> run_state \<Rightarrow> run_state" where
  "run_main oor b s =
     (case rs_main s of
        MWait \<Rightarrow> if rs_wg s = 0 then s\<lparr>rs_main := MClose\<rparr> else s
      | MClose \<Rightarrow>
          (case (close_chan (rs_resultCh s), close_chan (rs_errCh s)) of
             (Proceeds c, Proceeds d) \<Rightarrow> s\<lparr>rs_resultCh := c, rs_errCh := d, rs_main := MRange\<rparr>
           | _ \<Rightarrow> s\<lparr>rs_panic := True\<rparr>)
      | MRange \<Rightarrow>
          (case recv (rs_errCh s) of
             Proceeds (Some e, d) \<Rightarrow> s\<lparr>rs_errCh := d, rs_main := MReturned (Inl e)\<rparr>
           | Proceeds (None, d) \<Rightarrow>
               s\<lparr>rs_main := MReturned (Inr (aggregate oor b (length (rs_pcs s)) (buf (rs_resultCh s))))\<rparr>
           | _ \<Rightarrow> s)
      | MReturned r \<Rightarrow> s)"

definition run_step ::
  "(f64 \<Rightarrow> time_Duration) \<Rightarrow> string \<Rightarrow> (nat \<Rightarrow> error + RunResponse) \<Rightarrow> run_state \<Rightarrow> nat \<Rightarrow> run_state" where
  "run_step oor b call s i =
     (if rs_panic s then s
      else if i < length (rs_pcs s) then run_goroutine call i s
      else run_main oor b s)"

definition run_fanout ::
  "(f64 \<Rightarrow> time_Duration) \<Rightarrow> string \<Rightarrow> (nat \<Rightarrow> error + RunResponse) \<Rightarrow> nat \<Rightarrow> nat list \<Rightarrow>
   (error + result) attempt" where
  "run_fanout oor b call n sched =
     (let s = foldl (run_step oor b call) (run_init n) sched
      in if rs_panic s then Panics
         else case rs_main s of MReturned r \<Rightarrow> Proceeds r | _ \<Rightarrow> Blocks)"

definition runBenchmark :: "env \<Rightarrow> Config \<Rightarrow> string \<Rightarrow> (error + result) attempt" where
  "runBenchmark E cfg b =
     andthen (setupBenchmark E cfg b) (\<lambda>r.
       case r of
         Some e \<Rightarrow> Proceeds (Inl e)
       | None \<Rightarrow>
           andthen (getWorkers E cfg) (\<lambda>r.
             case r of
               Inl e \<Rightarrow> Proceeds (Inl e)
             | Inr ws \<Rightarrow>
                 run_fanout (out_of_range E) b
                   (\<lambda>i. RunBenchmark E (ws ! i) (runRequest cfg b (length ws)))
                   (length ws) (schedule E (AtRunBenchmark b))))"

subsection \<open>runBenchmarks, run and Run\<close>

fun runBenchmarks_loop ::
  "env \<Rightarrow> Config \<Rightarrow> result list \<Rightarrow> string list \<Rightarrow> (error + result list) attempt" where
  "runBenchmarks_loop E cfg results [] = Proceeds (Inr results)"
| "runBenchmarks_loop E cfg results (b # bs) =
     andthen (runBenchmark E cfg b) (\<lambda>r.
       case r of
         Inl e \<Rightarrow> Proceeds (Inl e)
       | Inr x \<Rightarrow> runBenchmarks_loop E cfg (results @ [x]) bs)"

definition runBenchmarks_results :: "env \<Rightarrow> Config \<Rightarrow> (error + result list) attempt" where
  \<comment> \<open>\<^verbatim>\<open>runBenchmarks\<close> up to the table: the set-up and the benchmarks' results.\<close>
  "runBenchmarks_results E cfg =
     andthen (setupSuite E cfg) (\<lambda>r.
       case r of
         Some e \<Rightarrow> Proceeds (Inl e)
       | None \<Rightarrow>
           andthen (setupWorkers E cfg) (\<lambda>r.
             case r of
               Some e \<Rightarrow> Proceeds (Inl e)
             | None \<Rightarrow>
                 if Benchmark cfg \<noteq> []
                 then runBenchmarks_loop E cfg [] [Benchmark cfg]
                 else runBenchmarks_loop E cfg [] (getBenchmarks E)))"

definition runBenchmarks :: "env \<Rightarrow> Config \<Rightarrow> error option attempt" where
  "runBenchmarks E cfg =
     andthen (runBenchmarks_results E cfg) (\<lambda>r.
       case r of
         Inl e \<Rightarrow> Proceeds (Some e)
       | Inr results \<Rightarrow> Proceeds (checkMaxLatency (MaxLatency cfg) results))"

definition createWorkers :: "env \<Rightarrow> Config \<Rightarrow> error option attempt" where
  "createWorkers E cfg = Proceeds (IterAsync_createWorker E)"

definition run :: "env \<Rightarrow> Config \<Rightarrow> error option attempt" where
  "run E cfg =
     (case CreateNamespace E of
        Some e \<Rightarrow> Proceeds (Some e)
      | None \<Rightarrow>
          andthen (createWorkers E cfg) (\<lambda>r.
            case r of
              Some e \<Rightarrow> Proceeds (Some e)
            | None \<Rightarrow> runBenchmarks E cfg))"

definition tearDown :: "env \<Rightarrow> error option" where
  "tearDown E = DeleteNamespace E"

text \<open>
  \<^verbatim>\<open>WorkerTask.Run\<close>. The first component counts the calls of \<^verbatim>\<open>tearDown\<close>, the second
  is what \<^verbatim>\<open>Run\<close> returns. When \<^verbatim>\<open>t.run()\<close> does not return, or panics, neither of the
  two calls of \<^verbatim>\<open>tearDown\<close> is reached: \<^verbatim>\<open>Run\<close> defers nothing.
\<close>

definition Run :: "env \<Rightarrow> Config \<Rightarrow> nat \<times> (int \<times> error option) attempt" where
  "Run E cfg =
     (case run E cfg of
        Proceeds (Some e) \<Rightarrow> (let _ = tearDown E in (1, Proceeds (0, Some e)))
      | Proceeds None \<Rightarrow> (let _ = tearDown E in (1, Proceeds (0, None)))
      | Blocks \<Rightarrow> (0, Blocks)
      | Panics \<Rightarrow> (0, Panics))"

subsection \<open>runWorkers\<close>












section \<open>A run of two workers\<close>

text \<open>
  The run that the specification walks through: one suite with the benchmark \<^verbatim>\<open>Get\<close>,
  two workers, every call successful, and the scheduler running the goroutines of each
  fan-out one after the other, the main goroutine last. Deleting the namespace fails.
\<close>

definition scenario_w0 :: RunResponse where
  "scenario_w0 = \<lparr>Requests = 100, Duration = 1000000000, Latency = 10000000, Latency50 = 8000000,
     Latency75 = 12000000, Latency95 = 20000000, Latency99 = 25000000\<rparr>"

definition scenario_w1 :: RunResponse where
  "scenario_w1 = \<lparr>Requests = 100, Duration = 2000000000, Latency = 20000000, Latency50 = 16000000,
     Latency75 = 24000000, Latency95 = 30000000, Latency99 = 35000000\<rparr>"

definition scenario_env :: env where
  "scenario_env =
     \<lparr>CreateNamespace = None, IterAsync_createWorker = None,
      DeleteNamespace = Some (Failure ''delete''),
      Dial = (\<lambda>i. None), SetupSuite = (\<lambda>i. None), SetupWorker = (\<lambda>i. None),
      SetupBenchmark = (\<lambda>b i. None),
      RunBenchmark = (\<lambda>i rq. Inr (if i = 0 then scenario_w0 else scenario_w1)),
      getBenchmarks = [''Get''],
      schedule = (\<lambda>p. [0, 0, 0, 1, 1, 1, 2, 2, 2]),
      out_of_range = (\<lambda>f. 0)\<rparr>"

definition scenario_cfg :: "time_Duration option \<Rightarrow> Config" where
  "scenario_cfg m =
     \<lparr>ID = ''bench'', Suite = ''kv'', Benchmark = '''', Workers = 2, Parallelism = 1,
      Iterations = 200, cfg_Duration = None, MaxLatency = m, Args = []\<rparr>"

section \<open>A run with a failing worker\<close>

text \<open>The same run with a single worker whose \<^verbatim>\<open>SetupWorker\<close> call fails.\<close>

definition failing_env :: env where
  "failing_env = scenario_env\<lparr>SetupWorker := (\<lambda>i. if i = 0 then Some (Failure ''setup'') else None)\<rparr>"

definition one_worker :: Config where
  "one_worker = (scenario_cfg None)\<lparr>Workers := 1\<rparr>"

section \<open>Invariants of the set-up fan-out\<close>

text \<open>
  \<open>setup_inv\<close> holds in every state of the fan-out: nothing is ever buffered in the
  channel, the main goroutine ranges over it only once it is closed, and the main
  goroutine has not returned an error. \<open>setup_stuck n\<close> holds in every state when each
  of the \<open>n\<close> calls fails: no goroutine has got past its send and the main goroutine is
  still in \<^verbatim>\<open>wg.Wait()\<close>.
\<close>

definition setup_inv :: "setup_state \<Rightarrow> bool" where
  "setup_inv s \<longleftrightarrow>
     buf (st_errCh s) = [] \<and> cap (st_errCh s) = 0 \<and>
     (st_main s = MRange \<longrightarrow> is_closed (st_errCh s)) \<and>
     (\<forall>e. st_main s \<noteq> MReturned (Some e))"

definition setup_stuck :: "nat \<Rightarrow> setup_state \<Rightarrow> bool" where
  "setup_stuck n s \<longleftrightarrow>
     st_errCh s = make_chan 0 \<and> st_wg s = n \<and> length (st_pcs s) = n \<and> st_main s = MWait \<and>
     \<not> st_panic s \<and>
     (\<forall>i<n. st_pcs s ! i = GCall \<or> st_pcs s ! i = GTest \<and> st_err s \<noteq> None
            \<or> st_pcs s ! i = GSend \<and> st_err s \<noteq> None)"

section \<open>Invariants of runWorkers\<close>






section \<open>The sequential interleaving of runWorkers\<close>








section \<open>Properties of internal/console\<close>

lemma launched_Some:
  "launched (Some r) c \<longleftrightarrow> c = \<lparr>buf = (case r of None \<Rightarrow> [] | Some e \<Rightarrow> [e]), cap = 1, is_closed = True\<rparr>"
  by (auto simp: launched_def Fork_goroutine_def send_def close_chan_def make_chan_def split: option.splits)

lemma recv_launched:
  "launched (Some r) c \<Longrightarrow> recv c = Proceeds (r, \<lparr>buf = [], cap = 1, is_closed = True\<rparr>)"
  by (auto simp: launched_Some recv_def split: option.splits)










text \<open>
  Claim C8, as the code has it. On the channel of a task that has returned \<open>r\<close>, the
  first \<^verbatim>\<open>Wait\<close> (or \<^verbatim>\<open>Join\<close>) returns \<open>r\<close>, and the second one does not block and
  returns nil: the channel is closed and drained. The two calls agree exactly when the
  task succeeded.
\<close>

theorem Wait_twice:
  assumes "w < length s" and "launched (Some r) (s ! w)"
  shows "\<exists>s1 s2. channelWaiter_Wait w s = Proceeds (r, s1) \<and>
                 channelWaiter_Wait w s1 = Proceeds (None, s2) \<and>
                 channelJoiner_Join w s = Proceeds (r, s1) \<and>
                 channelJoiner_Join w s1 = Proceeds (None, s2)"
proof -
  define c where "c = (\<lparr>buf = [], cap = 1, is_closed = True\<rparr> :: 'a chan)"
  from assms(2) have 1: "recv (s ! w) = Proceeds (r, c)"
    unfolding c_def by (rule recv_launched)
  have 2: "recv c = Proceeds (None, c)"
    by (simp add: recv_def c_def)
  from assms(1) have 3: "s[w := c] ! w = c"
    by simp
  show ?thesis
    by (simp add: channelWaiter_Wait_def channelJoiner_Join_def 1 2 3)
qed

theorem Wait_twice_witness:
  "(0::nat) < length [\<lparr>buf = [''boom''], cap = 1, is_closed = True\<rparr>] \<and>
   launched (Some (Some ''boom'')) ([\<lparr>buf = [''boom''], cap = 1, is_closed = True\<rparr>] ! 0) \<and>
   (\<exists>s1 s2. channelWaiter_Wait 0 [\<lparr>buf = [''boom''], cap = 1, is_closed = True\<rparr>] = Proceeds (Some ''boom'', s1) \<and>
      channelWaiter_Wait 0 s1 = Proceeds (None, s2))"
proof -
  let ?s = "[\<lparr>buf = [''boom''], cap = 1, is_closed = True\<rparr>]"
  have a: "(0::nat) < length ?s" by simp
  have b: "launched (Some (Some ''boom'')) (?s ! 0)"
    by (simp add: launched_def Fork_goroutine_def send_def close_chan_def make_chan_def)
  from Wait_twice [OF a b] a b show ?thesis
    by blast
qed

text \<open>
  Claim C8 as stated fails for a task that returned an error: the first \<^verbatim>\<open>Wait\<close> returns
  the error and the second one returns nil.
\<close>

theorem double_Wait_counterexample:
  "launched (Some (Some ''boom'')) \<lparr>buf = [''boom''], cap = 1, is_closed = True\<rparr> \<and>
   channelWaiter_Wait 0 [\<lparr>buf = [''boom''], cap = 1, is_closed = True\<rparr>]
     = Proceeds (Some ''boom'', [\<lparr>buf = [], cap = 1, is_closed = True\<rparr>]) \<and>
   channelWaiter_Wait 0 [\<lparr>buf = [], cap = 1, is_closed = True\<rparr>]
     = Proceeds (None, [\<lparr>buf = [], cap = 1, is_closed = True\<rparr>]) \<and>
   Some ''boom'' \<noteq> (None :: string option)"
  by (simp add: launched_def Fork_goroutine_def send_def close_chan_def make_chan_def
      channelWaiter_Wait_def recv_def)

section \<open>Properties of pkg/benchmark\<close>

lemmas chan_defs = make_chan_def send_def recv_def close_chan_def

lemma scenario_fields:
  "CreateNamespace scenario_env = None" "IterAsync_createWorker scenario_env = None"
  "DeleteNamespace scenario_env = Some (Failure ''delete'')"
  "SetupSuite scenario_env = (\<lambda>i. None)" "SetupWorker scenario_env = (\<lambda>i. None)"
  "SetupBenchmark scenario_env = (\<lambda>b i. None)"
  "RunBenchmark scenario_env = (\<lambda>i rq. Inr (if i = 0 then scenario_w0 else scenario_w1))"
  "getBenchmarks scenario_env = [''Get'']"
  "schedule scenario_env = (\<lambda>p. [0, 0, 0, 1, 1, 1, 2, 2, 2])"
  "out_of_range scenario_env = (\<lambda>f. 0)"
  by (simp_all add: scenario_env_def)

lemma scenario_getWorkers: "getWorkers scenario_env (scenario_cfg m) = Proceeds (Inr [0, 1])"
  by (simp add: getWorkers_def scenario_env_def scenario_cfg_def upt_rec)

lemma scenario_setup: "setup_fanout (\<lambda>i. None) 2 [0, 0, 0, 1, 1, 1, 2, 2, 2] = Proceeds None"
  by (simp add: setup_fanout_def setup_step_def setup_init_def setup_goroutine_def setup_main_def
      chan_defs numeral_2_eq_2)

lemma scenario_run:
  "call 0 = Inr a \<Longrightarrow> call 1 = Inr b \<Longrightarrow>
   run_fanout oor bn call 2 [0, 0, 0, 1, 1, 1, 2, 2, 2] = Proceeds (Inr (aggregate oor bn 2 [a, b]))"
  by (simp add: run_fanout_def run_step_def run_init_def run_goroutine_def run_main_def
      chan_defs numeral_2_eq_2)

lemma scenario_results:
  "runBenchmarks_results scenario_env (scenario_cfg m)
   = Proceeds (Inr [aggregate (\<lambda>f. 0) ''Get'' 2 [scenario_w0, scenario_w1]])"
proof -
  have 1: "setupWorkers scenario_env (scenario_cfg m) = Proceeds None"
    using scenario_setup by (simp add: setupWorkers_def scenario_getWorkers andthen_def scenario_fields numeral_2_eq_2)
  have 2: "setupSuite scenario_env (scenario_cfg m) = Proceeds None"
    by (simp add: setupSuite_def scenario_getWorkers andthen_def scenario_fields)
  have 3: "setupBenchmark scenario_env (scenario_cfg m) ''Get'' = Proceeds None"
    using scenario_setup by (simp add: setupBenchmark_def scenario_getWorkers andthen_def scenario_fields numeral_2_eq_2)
  have "run_fanout (\<lambda>f. 0) ''Get''
          (\<lambda>i. RunBenchmark scenario_env ([0, 1] ! i) (runRequest (scenario_cfg m) ''Get'' (length [0, 1 :: nat])))
          2 [0, 0, 0, 1, 1, 1, 2, 2, 2]
        = Proceeds (Inr (aggregate (\<lambda>f. 0) ''Get'' 2 [scenario_w0, scenario_w1]))"
    by (rule scenario_run) (simp_all add: scenario_fields)
  then have r: "run_fanout (out_of_range scenario_env) ''Get''
          (\<lambda>i. RunBenchmark scenario_env ([0, 1] ! i) (runRequest (scenario_cfg m) ''Get'' (length [0, 1 :: nat])))
          (length [0, 1 :: nat]) (schedule scenario_env (AtRunBenchmark ''Get''))
        = Proceeds (Inr (aggregate (\<lambda>f. 0) ''Get'' 2 [scenario_w0, scenario_w1]))"
    by (simp add: scenario_fields numeral_2_eq_2)
  have 4: "runBenchmark scenario_env (scenario_cfg m) ''Get''
           = Proceeds (Inr (aggregate (\<lambda>f. 0) ''Get'' 2 [scenario_w0, scenario_w1]))"
    by (simp only: runBenchmark_def 3 scenario_getWorkers andthen_def attempt.case option.case
        sum.case r)
  have 5: "Benchmark (scenario_cfg m) = []"
    by (simp add: scenario_cfg_def)
  show ?thesis
    by (simp add: runBenchmarks_results_def 1 2 4 5 andthen_def scenario_fields)
qed


lemma scenario_mean:
  "meanLatency (aggregate oor ''Get'' 2 [scenario_w0, scenario_w1]) = 15000000"
  by (simp add: aggregate_def totals_step_def totals_zero_def mean_of_def Duration_of_def
      float64_def round64_def exponent_def round_half_even_def compute_bitlen Let_def
      scenario_w0_def scenario_w1_def)

subsection \<open>WorkerTask.Run\<close>






lemma scenario_MaxLatency: "MaxLatency (scenario_cfg m) = m"
  by (simp add: scenario_cfg_def)




subsection \<open>The latency threshold\<close>

lemma checkMaxLatency_None: "checkMaxLatency None rs = None"
  by (induction rs) simp_all

lemma checkMaxLatency_Some:
  "(if \<exists>r\<in>set rs. sint m \<le> sint (meanLatency r)
    then \<exists>r\<in>set rs. sint m \<le> sint (meanLatency r) \<and>
           checkMaxLatency (Some m) rs = Some (LatencyExceeded (Milliseconds (meanLatency r)) m)
    else checkMaxLatency (Some m) rs = None)"
  by (induction rs) auto

text \<open>
  Claim C3. When the set-up and every benchmark succeeded with the results \<open>results\<close>,
  \<^verbatim>\<open>runBenchmarks\<close> returns a latency error if \<^verbatim>\<open>MaxLatency\<close> is configured and the mean
  latency of some result is greater than or equal to it, and nil otherwise.
\<close>

theorem runBenchmarks_MaxLatency:
  assumes "runBenchmarks_results E cfg = Proceeds (Inr results)"
  shows "if \<exists>m. MaxLatency cfg = Some m \<and> (\<exists>r\<in>set results. sint m \<le> sint (meanLatency r))
         then \<exists>ms m. runBenchmarks E cfg = Proceeds (Some (LatencyExceeded ms m))
         else runBenchmarks E cfg = Proceeds None"
proof (cases "MaxLatency cfg")
  case None
  with assms show ?thesis
    by (simp add: runBenchmarks_def andthen_def checkMaxLatency_None)
next
  case (Some m)
  with assms checkMaxLatency_Some [of results m] show ?thesis
    by (auto simp: runBenchmarks_def andthen_def split: if_splits)
qed

theorem runBenchmarks_MaxLatency_witness:
  "runBenchmarks_results scenario_env (scenario_cfg (Some 10000000))
     = Proceeds (Inr [aggregate (\<lambda>f. 0) ''Get'' 2 [scenario_w0, scenario_w1]]) \<and>
   meanLatency (aggregate (\<lambda>f. 0) ''Get'' 2 [scenario_w0, scenario_w1]) = 15000000 \<and>
   (\<exists>ms m. runBenchmarks scenario_env (scenario_cfg (Some 10000000)) = Proceeds (Some (LatencyExceeded ms m))) \<and>
   runBenchmarks scenario_env (scenario_cfg (Some 20000000)) = Proceeds None \<and>
   runBenchmarks scenario_env (scenario_cfg None) = Proceeds None"
  using runBenchmarks_MaxLatency [OF scenario_results [of "Some 10000000"]]
    runBenchmarks_MaxLatency [OF scenario_results [of "Some 20000000"]]
    runBenchmarks_MaxLatency [OF scenario_results [of None]]
  by (simp add: scenario_results scenario_mean scenario_MaxLatency)

subsection \<open>The requests handed to the workers\<close>

lemma go_quot_nonneg: "0 \<le> a \<Longrightarrow> 0 < b \<Longrightarrow> go_quot a b = a div b"
  by (cases "a = 0") (simp_all add: go_quot_def)

text \<open>
  Claim C2, as the code has it. For \<open>W \<ge> 1\<close> workers and a total \<open>N \<ge> 0\<close> with
  \<open>N div W < 2 ^ 32\<close>, the request handed to each worker asks for \<open>N div W\<close> requests, and
  over the \<open>W\<close> workers these add up to \<open>N - N mod W\<close>.
\<close>

theorem runRequest_Requests:
  assumes "1 \<le> W" and "0 \<le> Iterations cfg" and "Iterations cfg div int W < 2 ^ 32"
  shows "uint (rq_Requests (runRequest cfg b W)) = Iterations cfg div int W \<and>
         (\<Sum>i<W. uint (rq_Requests (runRequest cfg b W)))
           = Iterations cfg - Iterations cfg mod int W"
proof -
  from assms have q: "go_quot (Iterations cfg) (int W) = Iterations cfg div int W"
    by (simp add: go_quot_nonneg)
  from assms have "0 \<le> Iterations cfg div int W"
    by (simp add: pos_imp_zdiv_nonneg_iff)
  with assms(3) have u: "uint (word_of_int (Iterations cfg div int W) :: 32 word) = Iterations cfg div int W"
    by (simp add: uint_word_of_int take_bit_int_eq_self)
  have "int W * (Iterations cfg div int W) = Iterations cfg - Iterations cfg mod int W"
    by (simp add: minus_mod_eq_mult_div)
  with u q show ?thesis
    by (simp add: runRequest_def)
qed

theorem runRequest_Requests_witness:
  "(1::nat) \<le> 3 \<and> (0::int) \<le> 200 \<and> (200::int) div int 3 < 2 ^ 32 \<and>
   uint (rq_Requests (runRequest (scenario_cfg None) ''Get'' 3)) = 66 \<and>
   (\<Sum>i<3::nat. uint (rq_Requests (runRequest (scenario_cfg None) ''Get'' 3))) = 198"
  using runRequest_Requests [of 3 "scenario_cfg None" "''Get''"]
  by (simp add: scenario_cfg_def)

text \<open>
  Claim C2 as stated fails where the quotient does not fit \<^verbatim>\<open>uint32\<close>: for one worker and
  \<open>N = 2 ^ 32\<close> the worker is asked for 0 requests, while \<open>N / W = N - N mod W = 2 ^ 32\<close>.
\<close>

theorem runRequest_Requests_counterexample:
  "uint (rq_Requests (runRequest ((scenario_cfg None)\<lparr>Workers := 1, Iterations := 4294967296\<rparr>) ''Get'' 1)) = 0 \<and>
   go_quot 4294967296 (int 1) = 4294967296 \<and>
   (\<Sum>i<1::nat. uint (rq_Requests (runRequest ((scenario_cfg None)\<lparr>Workers := 1, Iterations := 4294967296\<rparr>) ''Get'' 1))) = 0 \<and>
   (4294967296::int) - 4294967296 mod int 1 = 4294967296"
  by (simp add: runRequest_def go_quot_def scenario_cfg_def)

subsection \<open>The set-up fan-out\<close>

lemma setup_inv_init: "setup_inv (setup_init n)"
  by (simp add: setup_inv_def setup_init_def make_chan_def)

lemma setup_inv_step: "setup_inv s \<Longrightarrow> setup_inv (setup_step rpc s i)"
  by (auto simp: setup_inv_def setup_step_def setup_goroutine_def setup_main_def send_def recv_def
      close_chan_def split: gpc.splits mpc.splits)

lemma setup_inv_foldl: "setup_inv s \<Longrightarrow> setup_inv (foldl (setup_step rpc) s sched)"
  by (induction sched arbitrary: s) (simp_all add: setup_inv_step)

lemma setup_stuck_init: "setup_stuck n (setup_init n)"
  by (simp add: setup_stuck_def setup_init_def)

lemma setup_stuck_step:
  assumes "0 < n" and "\<forall>i<n. rpc i \<noteq> None" and "setup_stuck n s"
  shows "setup_stuck n (setup_step rpc s i)"
proof (cases "i < n")
  case True
  with assms show ?thesis
    by (auto simp: setup_stuck_def setup_step_def setup_goroutine_def send_def make_chan_def
        nth_list_update split: gpc.splits)
next
  case False
  with assms show ?thesis
    by (auto simp: setup_stuck_def setup_step_def setup_main_def)
qed

lemma setup_stuck_foldl:
  "0 < n \<Longrightarrow> \<forall>i<n. rpc i \<noteq> None \<Longrightarrow> setup_stuck n s \<Longrightarrow>
   setup_stuck n (foldl (setup_step rpc) s sched)"
  by (induction sched arbitrary: s) (simp_all add: setup_stuck_step)

lemma setup_fanout_no_error: "setup_fanout rpc n sched \<noteq> Proceeds (Some e)"
  using setup_inv_foldl [OF setup_inv_init, of rpc n sched]
  by (auto simp: setup_fanout_def setup_inv_def Let_def split: mpc.splits)

lemma setup_fanout_blocks:
  "0 < n \<Longrightarrow> \<forall>i<n. rpc i \<noteq> None \<Longrightarrow> setup_fanout rpc n sched = Blocks"
  using setup_stuck_foldl [OF _ _ setup_stuck_init, of n rpc sched]
  by (auto simp: setup_fanout_def setup_stuck_def Let_def)


lemma setupWorkers_fanout:
  "getWorkers E cfg = Proceeds (Inr ws) \<Longrightarrow>
   setupWorkers E cfg
     = setup_fanout (\<lambda>i. SetupWorker E (ws ! i)) (length ws) (schedule E AtSetupWorkers)"
  by (simp add: setupWorkers_def andthen_def)

lemma setupBenchmark_fanout:
  "getWorkers E cfg = Proceeds (Inr ws) \<Longrightarrow>
   setupBenchmark E cfg b
     = setup_fanout (\<lambda>i. SetupBenchmark E b (ws ! i)) (length ws) (schedule E (AtSetupBenchmark b))"
  by (simp add: setupBenchmark_def andthen_def)

lemma setupWorkers_blocks:
  assumes "getWorkers E cfg = Proceeds (Inr ws)" and "ws \<noteq> []"
    and "\<forall>w\<in>set ws. SetupWorker E w \<noteq> None"
  shows "setupWorkers E cfg = Blocks"
  using assms by (simp add: setupWorkers_fanout setup_fanout_blocks)

text \<open>
  Claim C6, against the code. Once the workers are resolved, neither \<^verbatim>\<open>setupWorkers\<close>
  nor \<^verbatim>\<open>setupBenchmark\<close> returns an error of a call, under any interleaving of the
  goroutines: the error channel has no buffer and nobody receives from it before
  \<^verbatim>\<open>wg.Wait()\<close> is over, so a goroutine that sends never reaches \<^verbatim>\<open>wg.Done()\<close>. When the
  call fails on every worker, the function does not return at all.
\<close>

theorem setup_error_not_returned:
  assumes "getWorkers E cfg = Proceeds (Inr ws)"
  shows "setupWorkers E cfg \<noteq> Proceeds (Some e) \<and>
         setupBenchmark E cfg b \<noteq> Proceeds (Some e) \<and>
         (ws \<noteq> [] \<and> (\<forall>w\<in>set ws. SetupWorker E w \<noteq> None) \<longrightarrow> setupWorkers E cfg = Blocks) \<and>
         (ws \<noteq> [] \<and> (\<forall>w\<in>set ws. SetupBenchmark E b w \<noteq> None) \<longrightarrow> setupBenchmark E cfg b = Blocks)"
  using assms
  by (simp add: setupWorkers_fanout setupBenchmark_fanout setup_fanout_no_error setup_fanout_blocks)

lemma failing_getWorkers: "getWorkers failing_env one_worker = Proceeds (Inr [0])"
  by (simp add: getWorkers_def failing_env_def one_worker_def scenario_env_def scenario_cfg_def)

lemma failing_SetupWorker: "SetupWorker failing_env 0 = Some (Failure ''setup'')"
  by (simp add: failing_env_def)

lemma setup_fanout_error_lost:
  "setup_fanout (\<lambda>i. if i = 0 then Some (Failure ''setup'') else None) 2 [0, 1, 0, 1, 0, 1, 2, 2, 2]
   = Proceeds None"
  by (simp add: setup_fanout_def setup_step_def setup_init_def setup_goroutine_def setup_main_def
      make_chan_def send_def recv_def close_chan_def numeral_2_eq_2)

theorem setup_error_not_returned_witness:
  "getWorkers failing_env one_worker = Proceeds (Inr [0]) \<and>
   SetupWorker failing_env 0 = Some (Failure ''setup'') \<and>
   setupWorkers failing_env one_worker = Blocks \<and>
   setup_fanout (\<lambda>i. if i = 0 then Some (Failure ''setup'') else None) 2 [0, 1, 0, 1, 0, 1, 2, 2, 2]
     = Proceeds None"
  using setup_error_not_returned [OF failing_getWorkers] failing_getWorkers failing_SetupWorker
    setup_fanout_error_lost
  by simp

text \<open>
  Claim C4, against the code. When the namespace and the workers are created, the suite
  is set up and \<^verbatim>\<open>SetupWorker\<close> fails on every worker, \<^verbatim>\<open>t.run()\<close> never returns and
  \<^verbatim>\<open>Run\<close> never calls \<^verbatim>\<open>tearDown\<close>.
\<close>

theorem Run_tearDown_skipped:
  assumes "CreateNamespace E = None" and "IterAsync_createWorker E = None"
    and "getWorkers E cfg = Proceeds (Inr (w # ws))" and "SetupSuite E w = None"
    and "\<forall>v\<in>set (w # ws). SetupWorker E v \<noteq> None"
  shows "Run E cfg = (0, Blocks)"
proof -
  from assms(3,5) have "setupWorkers E cfg = Blocks"
    by (intro setupWorkers_blocks [where ws = "w # ws"]) simp_all
  with assms show ?thesis
    by (simp add: Run_def run_def createWorkers_def runBenchmarks_def runBenchmarks_results_def
        setupSuite_def andthen_def)
qed

theorem Run_tearDown_skipped_witness:
  "CreateNamespace failing_env = None \<and> IterAsync_createWorker failing_env = None \<and>
   getWorkers failing_env one_worker = Proceeds (Inr [0]) \<and>
   SetupSuite failing_env 0 = None \<and>
   SetupWorker failing_env 0 = Some (Failure ''setup'') \<and>
   Run failing_env one_worker = (0, Blocks)"
proof -
  have 1: "CreateNamespace failing_env = None" "IterAsync_createWorker failing_env = None"
    "SetupSuite failing_env 0 = None"
    by (simp_all add: failing_env_def scenario_env_def)
  have 2: "\<forall>v\<in>set [0]. SetupWorker failing_env v \<noteq> None"
    by (simp add: failing_SetupWorker)
  from Run_tearDown_skipped [OF 1(1,2) failing_getWorkers 1(3) 2] 1 failing_getWorkers
    failing_SetupWorker show ?thesis
    by simp
qed

section \<open>Properties of the aggregation\<close>

subsection \<open>Rounding to float64\<close>

lemma round_half_even_of_int: "round_half_even (of_int k) = k"
  by (simp add: round_half_even_def)

lemma exponent_of_int: "1 \<le> a \<Longrightarrow> exponent (of_int a) = bitlen a - 1"
  by (simp add: exponent_def)

lemma exponent_bounds:
  assumes "0 < x"
  shows "2 powi (exponent x) \<le> x" and "x < 2 powi (exponent x + 1)"
proof -
  have "2 powi (exponent x) \<le> x \<and> x < 2 powi (exponent x + 1)"
  proof (cases "1 \<le> x")
    case True
    define f where "f = \<lfloor>x\<rfloor>"
    from True have f1: "1 \<le> f" by (simp add: f_def le_floor_iff)
    define l where "l = bitlen f"
    from f1 have b: "2 ^ nat (l - 1) \<le> f" "f < 2 ^ nat l"
      using bitlen_bounds [of f] by (simp_all add: l_def)
    from f1 have l1: "1 \<le> l"
      using bitlen_nonneg [of f] bitlen_eq_zero_iff [of f] by (simp add: l_def)
    from True have e: "exponent x = l - 1" by (simp add: exponent_def l_def f_def)
    have "real_of_int f \<le> x" by (simp add: f_def)
    moreover from b(1) have "(2::real) ^ nat (l - 1) \<le> real_of_int f"
      by (metis of_int_le_iff of_int_numeral of_int_power)
    ultimately have lo: "(2::real) ^ nat (l - 1) \<le> x" by linarith
    from b(2) have "f + 1 \<le> 2 ^ nat l" by simp
    then have "real_of_int (f + 1) \<le> 2 ^ nat l"
      by (metis of_int_le_iff of_int_numeral of_int_power)
    moreover have "x < real_of_int (f + 1)" by (simp add: f_def)
    ultimately have hi: "x < (2::real) ^ nat l" by linarith
    from l1 have "(2::real) powi (l - 1) = 2 ^ nat (l - 1)" "(2::real) powi (l - 1 + 1) = 2 ^ nat l"
      by (simp_all add: power_int_def)
    with lo hi e show ?thesis by simp
  next
    case False
    with assms have x1: "1 < 1 / x" by simp
    define c where "c = \<lceil>1 / x\<rceil> - 1"
    from x1 have "2 \<le> \<lceil>1 / x\<rceil>" by (simp add: le_ceiling_iff)
    then have c1: "1 \<le> c" by (simp add: c_def)
    define l where "l = bitlen c"
    from c1 have b: "2 ^ nat (l - 1) \<le> c" "c < 2 ^ nat l"
      using bitlen_bounds [of c] by (simp_all add: l_def)
    from c1 have l1: "1 \<le> l"
      using bitlen_nonneg [of c] bitlen_eq_zero_iff [of c] by (simp add: l_def)
    from False have e: "exponent x = - l" by (simp add: exponent_def l_def c_def)
    have c_lt: "real_of_int c < 1 / x" and c_ge: "1 / x \<le> real_of_int c + 1"
      by (simp_all add: c_def less_ceiling_iff[symmetric] ceiling_correct) 
    from b(2) have "c + 1 \<le> 2 ^ nat l" by simp
    then have "real_of_int (c + 1) \<le> 2 ^ nat l"
      by (metis of_int_le_iff of_int_numeral of_int_power)
    with c_ge have "1 / x \<le> 2 ^ nat l" by linarith
    with assms have lo: "1 / 2 ^ nat l \<le> x"
      by (simp add: field_simps)
    from b(1) have "(2::real) ^ nat (l - 1) \<le> real_of_int c"
      by (metis of_int_le_iff of_int_numeral of_int_power)
    with c_lt have "2 ^ nat (l - 1) < 1 / x" by linarith
    with assms have hi: "x < 1 / 2 ^ nat (l - 1)"
      by (simp add: field_simps)
    from l1 have "(2::real) powi (- l) = 1 / 2 ^ nat l" "(2::real) powi (- l + 1) = 1 / 2 ^ nat (l - 1)"
      by (simp_all add: power_int_def field_simps)
    with lo hi e show ?thesis by simp
  qed
  then show "2 powi (exponent x) \<le> x" and "x < 2 powi (exponent x + 1)" by simp_all
qed

lemma round_half_even_bounds:
  assumes "of_int K \<le> t" and "t < of_int K' - 1 / 2"
  shows "K \<le> round_half_even t" and "round_half_even t < K'"
proof -
  define f where "f = \<lfloor>t\<rfloor>"
  from assms(1) have Kf: "K \<le> f" by (simp add: f_def le_floor_iff)
  have ft: "of_int f \<le> t" "t < of_int f + 1" by (simp_all add: f_def)
  from ft(1) assms(2) have "real_of_int f < of_int K'" by simp
  then have fK': "f < K'" by simp
  have r: "round_half_even t = f \<or> round_half_even t = f + 1 \<and> 1 / 2 \<le> t - of_int f"
    by (auto simp: round_half_even_def Let_def f_def)
  from r Kf show "K \<le> round_half_even t" by auto
  from r show "round_half_even t < K'"
  proof
    assume "round_half_even t = f"
    with fK' show ?thesis by simp
  next
    assume a: "round_half_even t = f + 1 \<and> 1 / 2 \<le> t - of_int f"
    with assms(2) have "real_of_int f + 1 < of_int K'" by simp
    then have "real_of_int (f + 1) < of_int K'" by simp
    then have "f + 1 < K'" by (simp only: of_int_less_iff)
    with a show ?thesis by simp
  qed
qed

lemma round64_of_int:
  assumes "\<bar>i\<bar> \<le> 2 ^ 53"
  shows "round64 (of_int i) = Finite (of_int i)"
proof (cases "i = 0")
  case True
  then show ?thesis by (simp add: round64_def)
next
  case False
  define a where "a = \<bar>i\<bar>"
  with False have a1: "1 \<le> a" by simp
  from assms have a2: "a \<le> 2 ^ 53" by (simp add: a_def)
  define e where "e = bitlen a - 1"
  from a1 have lo: "2 ^ nat e \<le> a" and hi: "a < 2 ^ nat (e + 1)"
    using bitlen_bounds [of a] by (simp_all add: e_def)
  from a1 have e0: "0 \<le> e"
    using bitlen_nonneg [of a] bitlen_eq_zero_iff [of a] by (simp add: e_def)
  have e53: "e \<le> 53"
  proof (rule ccontr)
    assume "\<not> e \<le> 53"
    then have "54 \<le> nat e" by simp
    then have "(2::int) ^ 54 \<le> 2 ^ nat e" by (intro power_increasing) simp_all
    with lo a2 show False by simp
  qed
  have ex: "\<exists>k::int. real_of_int a / 2 powi (e - 52) = of_int k"
  proof (cases "e \<le> 52")
    case True
    then have "2 powi (e - 52) = 1 / (2::real) ^ nat (52 - e)"
      by (simp add: power_int_def field_simps)
    then have "real_of_int a / 2 powi (e - 52) = of_int (a * 2 ^ nat (52 - e))"
      by simp
    then show ?thesis ..
  next
    case False
    with e53 have e: "e = 53" by simp
    with lo a2 have "a = 2 ^ 53" by simp
    with e have "real_of_int a / 2 powi (e - 52) = of_int (2 ^ 52)"
      by simp
    then show ?thesis ..
  qed
  then obtain k :: int where k: "real_of_int a / 2 powi (e - 52) = of_int k" ..
  have u: "(2::real) powi (e - 52) \<noteq> 0" by simp
  from k have m: "of_int (round_half_even (real_of_int a / 2 powi (e - 52))) * 2 powi (e - 52) = real_of_int a"
    using u by (simp add: round_half_even_of_int field_simps)
  from a2 have "real_of_int a \<le> 2 ^ 53" by (metis of_int_le_iff of_int_numeral of_int_power)
  also have "(2::real) ^ 53 < 2 ^ 1024" by (intro power_strict_increasing) simp_all
  finally have big: "\<not> (2::real) ^ 1024 \<le> real_of_int a" by simp
  have abs: "\<bar>real_of_int i\<bar> = real_of_int a" by (simp add: a_def)
  have ee: "max (exponent (real_of_int a)) (- 1022) = e"
    using a1 e0 by (simp add: exponent_of_int e_def)
  have sg: "sgn (real_of_int i) * real_of_int a = real_of_int i"
    by (simp add: a_def sgn_if)
  from False show ?thesis
    by (simp only: round64_def Let_def abs ee m big sg of_int_eq_0_iff if_False)
qed

lemma float64_exact: "\<bar>i\<bar> \<le> 2 ^ 53 \<Longrightarrow> float64 i = Finite (of_int i)"
  by (simp add: float64_def round64_of_int)


lemma round64_quotient:
  assumes "0 \<le> a" and "a < 2 ^ 53" and "1 \<le> b" and "b \<le> 2 ^ 53"
  shows "\<exists>y. round64 (of_int a / of_int b) = Finite y \<and> 0 \<le> y \<and> \<lfloor>y\<rfloor> = a div b"
proof (cases "a = 0")
  case True
  then show ?thesis by (simp add: round64_def)
next
  case False
  with assms have a1: "1 \<le> a" by simp
  define A where "A = real_of_int a"
  define B where "B = real_of_int b"
  define x where "x = A / B"
  define q where "q = a div b"
  define Q where "Q = real_of_int q"
  have A1: "1 \<le> A" using a1 by (simp add: A_def)
  have A53: "A < 2 ^ 53"
    unfolding A_def using assms(2) by (metis of_int_less_iff of_int_numeral of_int_power)
  have B1: "1 \<le> B" using assms(3) by (simp add: B_def)
  have B53: "B \<le> 2 ^ 53"
    unfolding B_def using assms(4) by (metis of_int_le_iff of_int_numeral of_int_power)
  from A1 B1 have x0: "0 < x" by (simp add: x_def)
  have "A / B \<le> A / 1"
    using A1 B1 by (intro divide_left_mono) simp_all
  then have xA: "x \<le> A" by (simp add: x_def)
  have "1 / 2 ^ 53 \<le> A / B"
    using A1 B1 B53 by (intro frac_le) simp_all
  then have x53: "1 / 2 ^ 53 \<le> x" by (simp add: x_def)
  define e where "e = exponent x"
  from x0 have lo: "2 powi e \<le> x" and hi: "x < 2 powi (e + 1)"
    by (simp_all add: e_def exponent_bounds)
  from lo xA A53 have lt53: "(2::real) powi e < 2 ^ 53" by linarith
  have e52: "e \<le> 52"
  proof (rule ccontr)
    assume "\<not> e \<le> 52"
    then have "53 \<le> e" by simp
    then have "(2::real) powi 53 \<le> 2 powi e" by (intro power_int_increasing) simp_all
    moreover have "(2::real) powi 53 = 2 ^ 53" by (simp add: power_int_def)
    ultimately show False using lt53 by linarith
  qed
  have m53: "(2::real) powi (- 53) = 1 / 2 ^ 53" by (simp add: power_int_def field_simps)
  have em: "- 53 \<le> e"
  proof (rule ccontr)
    assume "\<not> - 53 \<le> e"
    then have "e + 1 \<le> - 53" by simp
    then have "(2::real) powi (e + 1) \<le> 2 powi (- 53)" by (intro power_int_increasing) simp_all
    with m53 x53 hi show False by linarith
  qed
  then have ee: "max e (- 1022) = e" by simp
  define N where "N = nat (52 - e)"
  define P where "P = (2::real) ^ N"
  have P0: "0 < P" by (simp add: P_def)
  from e52 have eN: "e = 52 - int N" by (simp add: N_def)
  have "(2::real) powi (52 - int N) = 2 powi 52 / 2 powi (int N)"
    by (rule power_int_diff) simp
  then have pe: "(2::real) powi e = 2 ^ 52 / P"
    by (simp add: eN P_def)
  define u where "u = (2::real) powi (e - 52)"
  have "e - 52 = - int N" by (simp add: eN)
  then have "u = 2 powi (- int N)" by (simp add: u_def)
  then have u: "u = 1 / P" by (simp add: power_int_minus P_def field_simps)
  define t where "t = x / u"
  have t: "t = x * P" by (simp add: t_def u)
  have "q = \<lfloor>x\<rfloor>" by (simp add: q_def x_def A_def B_def floor_divide_of_int_eq)
  then have qx: "Q \<le> x" by (simp add: Q_def)
  have "a mod b \<le> b - 1" using pos_mod_bound [of b a] assms(3) by simp
  moreover have "a = b * q + a mod b" by (simp add: q_def)
  ultimately have "a \<le> b * q + (b - 1)" by linarith
  then have "real_of_int a \<le> real_of_int (b * q + (b - 1))" by (simp only: of_int_le_iff)
  then have "A \<le> B * Q + (B - 1)" by (simp add: A_def B_def Q_def)
  then have "A / B \<le> (B * Q + (B - 1)) / B"
    using B1 by (intro divide_right_mono) simp_all
  also have "(B * Q + (B - 1)) / B = Q + 1 - 1 / B"
    using B1 by (simp add: field_simps)
  finally have xq: "x \<le> Q + 1 - 1 / B" by (simp add: x_def)
  from lo B1 have "2 powi e * B \<le> A"
    by (simp add: x_def pos_le_divide_eq)
  with A53 have "2 ^ 52 / P * B < 2 ^ 53" by (simp add: pe)
  with P0 have bN: "B < 2 * P" by (simp add: field_simps)
  from qx P0 have "Q * P \<le> x * P" by (intro mult_right_mono) simp_all
  then have K: "real_of_int (q * 2 ^ N) \<le> t"
    by (simp add: t Q_def P_def)
  from bN B1 have half: "1 / 2 < P / B" by (simp add: field_simps)
  from xq P0 have "x * P \<le> (Q + 1 - 1 / B) * P" by (intro mult_right_mono) simp_all
  also have "(Q + 1 - 1 / B) * P = (Q + 1) * P - P / B" by (simp add: algebra_simps)
  finally have "t \<le> (Q + 1) * P - P / B" by (simp add: t)
  with half have "t < (Q + 1) * P - 1 / 2" by linarith
  then have K': "t < real_of_int ((q + 1) * 2 ^ N) - 1 / 2"
    by (simp add: Q_def P_def)
  define r where "r = round_half_even t"
  from round_half_even_bounds [OF K K'] have r: "q * 2 ^ N \<le> r" "r < (q + 1) * 2 ^ N"
    by (simp_all add: r_def)
  define y where "y = real_of_int r * u"
  from r(1) have "real_of_int (q * 2 ^ N) \<le> real_of_int r" by (simp only: of_int_le_iff)
  then have "Q * P \<le> real_of_int r" by (simp add: Q_def P_def)
  with P0 have yq: "Q \<le> y" by (simp add: y_def u pos_le_divide_eq)
  from r(2) have "real_of_int r < real_of_int ((q + 1) * 2 ^ N)" by (simp only: of_int_less_iff)
  then have "real_of_int r < (Q + 1) * P" by (simp add: Q_def P_def)
  with P0 have yq1: "y < Q + 1" by (simp add: y_def u pos_divide_less_eq)
  from a1 assms(3) have q0: "0 \<le> q" by (simp add: q_def pos_imp_zdiv_nonneg_iff)
  then have "0 \<le> Q" by (simp add: Q_def)
  with yq have y0: "0 \<le> y" by simp
  from yq yq1 have fl: "\<lfloor>y\<rfloor> = q" by (simp add: floor_unique Q_def)
  from qx xA yq1 A53 have "y < 2 ^ 53 + 1" by simp
  also have "(2::real) ^ 53 + 1 \<le> 2 ^ 54" by simp
  also have "(2::real) ^ 54 < 2 ^ 1024" by (intro power_strict_increasing) simp_all
  finally have big: "\<not> (2::real) ^ 1024 \<le> y" by simp
  have "round64 x = (if 2 ^ 1024 \<le> y then (if 0 < x then PosInf else NegInf) else Finite (sgn x * y))"
    unfolding round64_def Let_def y_def r_def t_def u_def using x0 ee by (simp add: e_def)
  with big x0 have "round64 x = Finite y" by simp
  with y0 fl show ?thesis
    by (auto simp: x_def q_def A_def B_def)
qed

subsection \<open>The aggregated result\<close>

lemma sint_word_of_int_64:
  "- (2 ^ 63) \<le> k \<Longrightarrow> k < 2 ^ 63 \<Longrightarrow> sint (word_of_int k :: 64 word) = k"
  by (simp add: sint_sbintrunc' signed_take_bit_int_eq_self)

lemma Duration_of_Finite:
  "0 \<le> y \<Longrightarrow> \<lfloor>y\<rfloor> < 2 ^ 63 \<Longrightarrow> Duration_of oor (Finite y) = word_of_int \<lfloor>y\<rfloor>"
  by (simp add: Duration_of_def Let_def)

lemma mean_of_exact:
  assumes "0 \<le> sint s" and "sint s < 2 ^ 53" and "1 \<le> n" and "int n \<le> 2 ^ 53"
  shows "sint (mean_of oor s n) = sint s div int n"
proof -
  from assms(1,2) have "\<bar>sint s\<bar> \<le> 2 ^ 53" by simp
  then have 1: "float64 (sint s) = Finite (of_int (sint s))" by (rule float64_exact)
  from assms(4) have "\<bar>int n\<bar> \<le> 2 ^ 53" by simp
  then have 2: "float64 (int n) = Finite (of_int (int n))" by (rule float64_exact)
  from assms(3) have "1 \<le> int n" by simp
  from round64_quotient [OF assms(1,2) this assms(4)] obtain y where
    y: "round64 (real_of_int (sint s) / real_of_int (int n)) = Finite y" "0 \<le> y"
      "\<lfloor>y\<rfloor> = sint s div int n"
    by blast
  have q0: "0 \<le> sint s div int n"
    using assms(1,3) by (simp add: pos_imp_zdiv_nonneg_iff)
  have "sint s div int n \<le> sint s"
    using assms(1,3) by (metis y(3) q0 int_one_le_iff_zero_less div_by_1 of_nat_0_less_iff zdiv_mono2 of_nat_1 of_nat_le_iff zero_less_one)
  with assms(2) have q63: "sint s div int n < 2 ^ 63" by simp
  from assms(3) y(1) have "mean_of oor s n = Duration_of oor (Finite y)"
    by (simp add: mean_of_def 1 2)
  also from y(2,3) q63 have "\<dots> = word_of_int (sint s div int n)"
    by (simp add: Duration_of_Finite)
  finally show ?thesis
    using q0 q63 by (simp add: sint_word_of_int_64)
qed

lemma duration_step:
  assumes "0 \<le> d" and "d \<le> 2 ^ 53" and "\<bar>r\<bar> \<le> 2 ^ 53"
  shows "Duration_of oor (math_Max (float64 d) (float64 r)) = word_of_int (max d r)"
proof -
  from assms have 1: "float64 d = Finite (of_int d)" "float64 r = Finite (of_int r)"
    by (simp_all add: float64_exact)
  have 2: "max (real_of_int d) (real_of_int r) = real_of_int (max d r)"
    by (simp add: max_def)
  from assms have "0 \<le> max d r" "max d r < 2 ^ 63" by simp_all
  then show ?thesis
    by (simp add: 1 2 Duration_of_Finite del: of_int_max)
qed


lemma totals_step_exact:
  assumes "0 \<le> sint (sum_duration a)" and "sint (sum_duration a) \<le> 2 ^ 53"
    and "\<bar>sint (Duration r)\<bar> \<le> 2 ^ 53"
  shows "totals_step oor r a =
     \<lparr>sum_duration = word_of_int (max (sint (sum_duration a)) (sint (Duration r))),
      sum_requests = sum_requests a + Requests r,
      latencySum = latencySum a + Latency r,
      latency50Sum = latency50Sum a + Latency50 r,
      latency75Sum = latency75Sum a + Latency75 r,
      latency95Sum = latency95Sum a + Latency95 r,
      latency99Sum = latency99Sum a + Latency99 r\<rparr>"
  using assms by (simp add: totals_step_def duration_step)

lemma sint_max_exact:
  assumes "0 \<le> d" and "d \<le> 2 ^ 53" and "\<bar>r\<bar> \<le> 2 ^ 53"
  shows "sint (word_of_int (max d r) :: 64 word) = max d r"
  using assms by (intro sint_word_of_int_64) simp_all

lemma fold_totals:
  assumes "\<forall>r\<in>set rs. \<bar>sint (Duration r)\<bar> \<le> 2 ^ 53"
    and "0 \<le> sint (sum_duration a)" and "sint (sum_duration a) \<le> 2 ^ 53"
  shows "fold (totals_step oor) rs a =
     \<lparr>sum_duration = word_of_int (fold max (map (\<lambda>r. sint (Duration r)) rs) (sint (sum_duration a))),
      sum_requests = sum_requests a + sum_list (map Requests rs),
      latencySum = latencySum a + sum_list (map Latency rs),
      latency50Sum = latency50Sum a + sum_list (map Latency50 rs),
      latency75Sum = latency75Sum a + sum_list (map Latency75 rs),
      latency95Sum = latency95Sum a + sum_list (map Latency95 rs),
      latency99Sum = latency99Sum a + sum_list (map Latency99 rs)\<rparr>"
  using assms
proof (induction rs arbitrary: a)
  case Nil
  then show ?case by simp
next
  case (Cons r rs)
  let ?a = "totals_step oor r a"
  from Cons.prems have r: "\<bar>sint (Duration r)\<bar> \<le> 2 ^ 53" by simp
  note st = totals_step_exact [OF Cons.prems(2,3) r, of oor]
  have sd: "sint (sum_duration ?a) = max (sint (sum_duration a)) (sint (Duration r))"
    using sint_max_exact [OF Cons.prems(2,3) r] by (simp add: st)
  from Cons.prems r have b: "0 \<le> sint (sum_duration ?a)" "sint (sum_duration ?a) \<le> 2 ^ 53"
    by (simp_all add: sd abs_le_iff)
  from Cons.prems have "\<forall>r\<in>set rs. \<bar>sint (Duration r)\<bar> \<le> 2 ^ 53" by simp
  from Cons.IH [OF this b] show ?case
    by (simp add: sd max.commute) (simp add: st add.assoc)
qed

lemma fold_max_Max:
  fixes xs :: "int list"
  assumes "xs \<noteq> []" and "\<forall>x\<in>set xs. 0 \<le> x"
  shows "fold max xs 0 = Max (set xs)"
proof -
  have "fold max xs 0 = Max (set (0 # xs))" by (simp only: Max.set_eq_fold)
  also have "\<dots> = max 0 (Max (set xs))" using assms(1) by simp
  also have "\<dots> = Max (set xs)"
  proof -
    from assms obtain x where "x \<in> set xs" "0 \<le> x" by (cases xs) auto
    then have "0 \<le> Max (set xs)" by (meson List.finite_set Max_ge order_trans)
    then show ?thesis by simp
  qed
  finally show ?thesis .
qed

lemma word_sum_uint: "sum_list (map f rs) = (word_of_int (\<Sum>r\<leftarrow>rs. uint (f r)) :: 'a::len word)"
  by (induction rs) simp_all

lemma word_sum_sint: "sum_list (map f rs) = (word_of_int (\<Sum>r\<leftarrow>rs. sint (f r)) :: 'a::len word)"
  by (induction rs) simp_all

lemma uint_sum_32:
  assumes "(\<Sum>r\<leftarrow>rs. uint (f r)) < 2 ^ 32"
  shows "uint (sum_list (map f rs) :: 32 word) = (\<Sum>r\<leftarrow>rs. uint (f r))"
proof -
  have "0 \<le> (\<Sum>r\<leftarrow>rs. uint (f r))" by (induction rs) simp_all
  with assms show ?thesis
    by (simp add: word_sum_uint [of f rs] uint_word_of_int take_bit_int_eq_self flip: take_bit_eq_mod)
qed

lemma sint_sum_64:
  assumes "0 \<le> (\<Sum>r\<leftarrow>rs. sint (f r))" and "(\<Sum>r\<leftarrow>rs. sint (f r)) < 2 ^ 53"
  shows "sint (sum_list (map f rs) :: 64 word) = (\<Sum>r\<leftarrow>rs. sint (f r))"
  using assms by (simp add: word_sum_sint [of f rs] sint_word_of_int_64)

lemma mean_of_sum:
  assumes "0 \<le> (\<Sum>r\<leftarrow>rs. sint (f r))" and "(\<Sum>r\<leftarrow>rs. sint (f r)) < 2 ^ 53"
    and "1 \<le> n" and "int n \<le> 2 ^ 53"
  shows "sint (mean_of oor (sum_list (map f rs)) n) = (\<Sum>r\<leftarrow>rs. sint (f r)) div int n"
  using assms by (simp add: mean_of_exact sint_sum_64)


lemma aggregate_totals:
  assumes "\<forall>r\<in>set rs. \<bar>sint (Duration r)\<bar> \<le> 2 ^ 53"
  shows "fold (totals_step oor) rs totals_zero =
     \<lparr>sum_duration = word_of_int (fold max (map (\<lambda>r. sint (Duration r)) rs) 0),
      sum_requests = sum_list (map Requests rs),
      latencySum = sum_list (map Latency rs),
      latency50Sum = sum_list (map Latency50 rs),
      latency75Sum = sum_list (map Latency75 rs),
      latency95Sum = sum_list (map Latency95 rs),
      latency99Sum = sum_list (map Latency99 rs)\<rparr>"
  using fold_totals [OF assms, of totals_zero oor] by (simp add: totals_zero_def)

text \<open>
  Claim C1, as the code has it. Take the responses of \<open>W \<ge> 1\<close> workers (at most
  \<open>2 ^ 53\<close> of them) whose request counts add up to less than \<open>2 ^ 32\<close>, whose durations
  lie between 0 and \<open>2 ^ 53\<close> nanoseconds, and whose latencies of each kind add up to a
  number between 0 and \<open>2 ^ 53\<close> nanoseconds. Then the aggregated result has the sum of
  the request counts, the maximum of the durations, as throughput the \<^verbatim>\<open>float64\<close>
  quotient of that sum by the \<^verbatim>\<open>float64\<close> quotient of that maximum by \<open>10 ^ 9\<close>, and as
  mean latency and as each percentile latency the sum of the workers' values divided by
  \<open>W\<close>, the fraction of a nanosecond dropped.
\<close>

theorem aggregate_formulas:
  assumes "rs \<noteq> []" and "int (length rs) \<le> 2 ^ 53"
    and "(\<Sum>r\<leftarrow>rs. uint (Requests r)) < 2 ^ 32"
    and "\<forall>r\<in>set rs. 0 \<le> sint (Duration r) \<and> sint (Duration r) \<le> 2 ^ 53"
    and "\<forall>f\<in>{Latency, Latency50, Latency75, Latency95, Latency99}.
           0 \<le> (\<Sum>r\<leftarrow>rs. sint (f r)) \<and> (\<Sum>r\<leftarrow>rs. sint (f r)) < 2 ^ 53"
  shows "requests (aggregate oor b (length rs) rs) = (\<Sum>r\<leftarrow>rs. uint (Requests r)) \<and>
         sint (duration (aggregate oor b (length rs) rs)) = Max ((\<lambda>r. sint (Duration r)) ` set rs) \<and>
         throughput (aggregate oor b (length rs) rs)
           = fdiv (Finite (of_int (\<Sum>r\<leftarrow>rs. uint (Requests r))))
               (fdiv (Finite (of_int (Max ((\<lambda>r. sint (Duration r)) ` set rs)))) (Finite 1000000000)) \<and>
         sint (meanLatency (aggregate oor b (length rs) rs))
           = (\<Sum>r\<leftarrow>rs. sint (Latency r)) div int (length rs) \<and>
         (\<exists>p. latencyPercentiles (aggregate oor b (length rs) rs) (1 / 2) = Some p \<and>
              sint p = (\<Sum>r\<leftarrow>rs. sint (Latency50 r)) div int (length rs)) \<and>
         (\<exists>p. latencyPercentiles (aggregate oor b (length rs) rs) (3 / 4) = Some p \<and>
              sint p = (\<Sum>r\<leftarrow>rs. sint (Latency75 r)) div int (length rs)) \<and>
         (\<exists>p. latencyPercentiles (aggregate oor b (length rs) rs) (95 / 100) = Some p \<and>
              sint p = (\<Sum>r\<leftarrow>rs. sint (Latency95 r)) div int (length rs)) \<and>
         (\<exists>p. latencyPercentiles (aggregate oor b (length rs) rs) (99 / 100) = Some p \<and>
              sint p = (\<Sum>r\<leftarrow>rs. sint (Latency99 r)) div int (length rs))"
proof -
  define R where "R = (\<Sum>r\<leftarrow>rs. uint (Requests r))"
  define D where "D = Max ((\<lambda>r. sint (Duration r)) ` set rs)"
  from assms(4) have dur: "\<forall>r\<in>set rs. \<bar>sint (Duration r)\<bar> \<le> 2 ^ 53" by auto
  note tot = aggregate_totals [OF dur, of oor]
  from assms(1,4) have "fold max (map (\<lambda>r. sint (Duration r)) rs) 0 = Max (set (map (\<lambda>r. sint (Duration r)) rs))"
    by (intro fold_max_Max) auto
  then have fm: "fold max (map (\<lambda>r. sint (Duration r)) rs) 0 = D" by (simp add: D_def)
  from assms(1) obtain r0 where r0: "r0 \<in> set rs" by (cases rs) auto
  have "D \<in> (\<lambda>r. sint (Duration r)) ` set rs"
    unfolding D_def using assms(1) by (intro Max_in) simp_all
  with assms(4) have D: "0 \<le> D" "D \<le> 2 ^ 53" by auto
  then have sD: "sint (word_of_int D :: 64 word) = D" by (intro sint_word_of_int_64) simp_all
  have uR: "uint (sum_list (map Requests rs)) = R"
    unfolding R_def using assms(3) by (rule uint_sum_32)
  have "0 \<le> R" unfolding R_def by (induction rs) simp_all
  with assms(3) have fR: "float64 R = Finite (of_int R)" by (intro float64_exact) (simp add: R_def)
  from D have fD: "float64 D = Finite (of_int D)" by (intro float64_exact) simp
  have fS: "float64 1000000000 = Finite 1000000000"
    using float64_exact [of 1000000000] by simp
  from assms(1) have n1: "1 \<le> length rs" by (cases rs) simp_all
  have mean: "sint (mean_of oor (sum_list (map f rs)) (length rs)) = (\<Sum>r\<leftarrow>rs. sint (f r)) div int (length rs)"
    if "f \<in> {Latency, Latency50, Latency75, Latency95, Latency99}" for f
    using that assms(5) n1 assms(2) by (intro mean_of_sum) auto
  have 1: "requests (aggregate oor b (length rs) rs) = R"
    by (simp add: aggregate_def Let_def tot uR)
  have 2: "sint (duration (aggregate oor b (length rs) rs)) = D"
    by (simp add: aggregate_def Let_def tot fm sD)
  have 3: "throughput (aggregate oor b (length rs) rs)
      = fdiv (Finite (of_int R)) (fdiv (Finite (of_int D)) (Finite 1000000000))"
    by (simp only: aggregate_def Let_def tot fm sD uR fR fD fS result.simps totals.simps)
  have 4: "sint (meanLatency (aggregate oor b (length rs) rs))
      = (\<Sum>r\<leftarrow>rs. sint (Latency r)) div int (length rs)"
    by (simp add: aggregate_def Let_def tot mean)
  have 5: "\<exists>p. latencyPercentiles (aggregate oor b (length rs) rs) (1 / 2) = Some p \<and>
              sint p = (\<Sum>r\<leftarrow>rs. sint (Latency50 r)) div int (length rs)"
    by (simp add: aggregate_def Let_def tot mean)
  have 6: "\<exists>p. latencyPercentiles (aggregate oor b (length rs) rs) (3 / 4) = Some p \<and>
              sint p = (\<Sum>r\<leftarrow>rs. sint (Latency75 r)) div int (length rs)"
    by (simp add: aggregate_def Let_def tot mean)
  have 7: "\<exists>p. latencyPercentiles (aggregate oor b (length rs) rs) (95 / 100) = Some p \<and>
              sint p = (\<Sum>r\<leftarrow>rs. sint (Latency95 r)) div int (length rs)"
    by (simp add: aggregate_def Let_def tot mean)
  have 8: "\<exists>p. latencyPercentiles (aggregate oor b (length rs) rs) (99 / 100) = Some p \<and>
              sint p = (\<Sum>r\<leftarrow>rs. sint (Latency99 r)) div int (length rs)"
    by (simp add: aggregate_def Let_def tot mean)
  from 1 2 3 4 5 6 7 8 show ?thesis
    unfolding R_def D_def by blast
qed

theorem aggregate_formulas_witness:
  "requests (aggregate (\<lambda>f. 0) ''Get'' 2 [scenario_w0, scenario_w1]) = 200 \<and>
   sint (duration (aggregate (\<lambda>f. 0) ''Get'' 2 [scenario_w0, scenario_w1])) = 2000000000 \<and>
   throughput (aggregate (\<lambda>f. 0) ''Get'' 2 [scenario_w0, scenario_w1]) = Finite 100 \<and>
   sint (meanLatency (aggregate (\<lambda>f. 0) ''Get'' 2 [scenario_w0, scenario_w1])) = 15000000 \<and>
   (\<exists>p. latencyPercentiles (aggregate (\<lambda>f. 0) ''Get'' 2 [scenario_w0, scenario_w1]) (1 / 2) = Some p \<and> sint p = 12000000) \<and>
   (\<exists>p. latencyPercentiles (aggregate (\<lambda>f. 0) ''Get'' 2 [scenario_w0, scenario_w1]) (3 / 4) = Some p \<and> sint p = 18000000) \<and>
   (\<exists>p. latencyPercentiles (aggregate (\<lambda>f. 0) ''Get'' 2 [scenario_w0, scenario_w1]) (95 / 100) = Some p \<and> sint p = 25000000) \<and>
   (\<exists>p. latencyPercentiles (aggregate (\<lambda>f. 0) ''Get'' 2 [scenario_w0, scenario_w1]) (99 / 100) = Some p \<and> sint p = 30000000)"
proof -
  let ?rs = "[scenario_w0, scenario_w1]"
  have 1: "?rs \<noteq> []" "int (length ?rs) \<le> 2 ^ 53"
    by simp_all
  have 2: "(\<Sum>r\<leftarrow>?rs. uint (Requests r)) < 2 ^ 32"
    by (simp add: scenario_w0_def scenario_w1_def)
  have 3: "\<forall>r\<in>set ?rs. 0 \<le> sint (Duration r) \<and> sint (Duration r) \<le> 2 ^ 53"
    by (simp add: scenario_w0_def scenario_w1_def)
  have 4: "\<forall>f\<in>{Latency, Latency50, Latency75, Latency95, Latency99}.
           0 \<le> (\<Sum>r\<leftarrow>?rs. sint (f r)) \<and> (\<Sum>r\<leftarrow>?rs. sint (f r)) < 2 ^ 53"
    by (simp add: scenario_w0_def scenario_w1_def)
  have 5: "length ?rs = 2" by simp
  from aggregate_formulas [OF 1 2 3 4, of "\<lambda>f. 0" "''Get''", unfolded 5] show ?thesis
    by (simp add: scenario_w0_def scenario_w1_def round64_def exponent_def round_half_even_def
        compute_bitlen Let_def)
qed


text \<open>
  Claim C1 as stated fails outside these ranges. Two workers that report \<open>2 ^ 31\<close>
  requests each give a total of 0, the sum being kept in a \<^verbatim>\<open>uint32\<close>; and two workers
  with latencies of 1 and 2 nanoseconds give a mean latency of 1 nanosecond.
\<close>

theorem aggregate_formulas_counterexample:
  "requests (aggregate (\<lambda>f. 0) ''Get'' 2
     [scenario_w0\<lparr>Requests := 2147483648, Latency := 1\<rparr>,
      scenario_w1\<lparr>Requests := 2147483648, Latency := 2\<rparr>]) = 0 \<and>
   uint (2147483648 :: 32 word) + uint (2147483648 :: 32 word) = 4294967296 \<and>
   sint (meanLatency (aggregate (\<lambda>f. 0) ''Get'' 2
     [scenario_w0\<lparr>Requests := 2147483648, Latency := 1\<rparr>,
      scenario_w1\<lparr>Requests := 2147483648, Latency := 2\<rparr>])) = 1 \<and>
   (real_of_int (sint (1 :: 64 word)) + real_of_int (sint (2 :: 64 word))) / 2 = 3 / 2"
  by (simp add: aggregate_def totals_step_def totals_zero_def mean_of_def Duration_of_def
      float64_def round64_def exponent_def round_half_even_def compute_bitlen Let_def
      scenario_w0_def scenario_w1_def)

subsection \<open>Permuting the responses\<close>





section \<open>Properties of runWorkers\<close>





subsection \<open>The task goroutines\<close>








subsection \<open>The closing goroutine\<close>




subsection \<open>The main goroutine\<close>




subsection \<open>Every interleaving\<close>





subsection \<open>The sequential interleaving\<close>

























end
